theory Spec2Isabelle
  imports Main
begin

section \<open>The campus booking API (booking\_api.py)\<close>

text \<open>
  The handlers of \<^verbatim>\<open>booking_api.py\<close> work on one SQLite file with the two tables
  \<^verbatim>\<open>venues\<close> and \<^verbatim>\<open>bookings\<close>. Every handler opens a connection, runs its statements
  and closes the connection; a handler body contains no \<^verbatim>\<open>await\<close>. The model is
  sequential: a handler is a function from the database before the call to its answer and
  the database after the call.
\<close>

subsection \<open>Values of the timestamp columns\<close>

text \<open>
  \<^verbatim>\<open>start_time\<close> and \<^verbatim>\<open>end_time\<close> are declared \<^verbatim>\<open>DATETIME\<close>, which gives the columns
  NUMERIC affinity: a text that is a well-formed numeric literal is stored as the number
  it denotes (an INTEGER or a REAL), any other text is stored as it is. The same
  conversion is applied to a text that is bound to a comparison with such a column.

  Which texts are numeric literals, and which number each denotes, is SQLite's own
  conversion; it is the parameter \<open>numeric\<close> of the definitions below, with \<open>None\<close> for
  a text that is no literal, and \<open>'n\<close> is the type of the numbers in SQLite's order.
\<close>

datatype 'n sql_value = Number 'n | Text string

definition numeric_affinity :: "(string \<Rightarrow> 'n option) \<Rightarrow> string \<Rightarrow> 'n sql_value" where
  "numeric_affinity numeric s = (case numeric s of Some n \<Rightarrow> Number n | None \<Rightarrow> Text s)"

text \<open>
  The order of two values: numbers by their value, every number below every text, and two
  texts byte by byte, a proper prefix being the smaller.
\<close>

fun text_lt :: "string \<Rightarrow> string \<Rightarrow> bool" where
  "text_lt [] [] = False"
| "text_lt [] (y # ys) = True"
| "text_lt (x # xs) [] = False"
| "text_lt (x # xs) (y # ys) =
     (if x = y then text_lt xs ys else (of_char x :: nat) < of_char y)"

fun sql_lt :: "'n::linorder sql_value \<Rightarrow> 'n sql_value \<Rightarrow> bool" where
  "sql_lt (Number a) (Number b) = (a < b)"
| "sql_lt (Number a) (Text t) = True"
| "sql_lt (Text s) (Number b) = False"
| "sql_lt (Text s) (Text t) = text_lt s t"

subsection \<open>Tables\<close>

text \<open>
  A row of \<^verbatim>\<open>venues\<close> and a row of \<^verbatim>\<open>bookings\<close>, with the columns of the two
  \<^verbatim>\<open>CREATE TABLE\<close> statements.
\<close>

record Venue =
  v_id :: int
  v_name :: string
  v_type :: string
  v_capacity :: int
  v_location :: string

record 'n Booking =
  b_id :: int
  b_venue_id :: int
  b_booker_name :: string
  b_start_time :: "'n sql_value"
  b_end_time :: "'n sql_value"

text \<open>
  The database: the rows of both tables in insertion order, and for each table the entry
  of \<^verbatim>\<open>sqlite_sequence\<close> that \<^verbatim>\<open>AUTOINCREMENT\<close> keeps (the largest id ever
  assigned). A database file without tables and one with two empty tables are the same
  state here, since every \<^verbatim>\<open>CREATE TABLE\<close> is \<^verbatim>\<open>IF NOT EXISTS\<close>.
\<close>

record 'n database =
  venues :: "Venue list"
  bookings :: "'n Booking list"
  venues_seq :: int
  bookings_seq :: int

definition empty_database :: "'n database" where
  "empty_database = \<lparr>venues = [], bookings = [], venues_seq = 0, bookings_seq = 0\<rparr>"

text \<open>
  The id an \<^verbatim>\<open>INTEGER PRIMARY KEY AUTOINCREMENT\<close> column gives to a new row: one more
  than the largest of the sequence entry and the ids present in the table.
\<close>

definition next_rowid :: "int \<Rightarrow> int list \<Rightarrow> int" where
  "next_rowid seq ids = fold max ids seq + 1"

subsection \<open>Request and response models\<close>

record BookingRequest =
  venue_id :: int
  booker_name :: string
  start_time :: string
  end_time :: string

record BookingResponse =
  r_id :: int
  r_venue_id :: int
  r_venue_name :: string
  r_booker_name :: string
  r_start_time :: string
  r_end_time :: string


text \<open>
  What a handler raises. \<open>HTTPException status detail\<close> is the exception of that name.
  \<open>TypeError\<close> is what Python raises when a naive and an aware datetime are compared,
  \<open>OverflowError\<close> what the \<^verbatim>\<open>sqlite3\<close> module raises when an integer outside the
  signed 64-bit range is bound to a statement. The handlers catch neither where they
  arise here, so both leave the handler.
\<close>

datatype error = HTTPException nat string | TypeError string | OverflowError string

definition int64 :: "int \<Rightarrow> bool" where
  "int64 i = (- (2 ^ 63) \<le> i \<and> i < 2 ^ 63)"

definition too_large :: string where
  "too_large = ''Python int too large to convert to SQLite INTEGER''"

subsection \<open>Datetimes\<close>

text \<open>
  A Python \<^verbatim>\<open>datetime\<close>: the wall-clock fields and \<^verbatim>\<open>tzinfo\<close>, which is either
  absent (a naive datetime) or a fixed UTC offset, here in microseconds.
\<close>

record datetime =
  year :: int
  month :: int
  day :: int
  hour :: int
  minute :: int
  second :: int
  microsecond :: int
  tzinfo :: "int option"

definition is_leap :: "int \<Rightarrow> bool" where
  "is_leap y = (if y mod 4 \<noteq> 0 then False else if y mod 100 \<noteq> 0 then True else y mod 400 = 0)"

definition days_before_year :: "int \<Rightarrow> int" where
  "days_before_year y = (y - 1) * 365 + (y - 1) div 4 - (y - 1) div 100 + (y - 1) div 400"

definition days_in_month :: "int \<Rightarrow> int \<Rightarrow> int" where
  "days_in_month y m =
     (if m = 2 then (if is_leap y then 29 else 28)
      else if m = 4 then 30 else if m = 6 then 30 else if m = 9 then 30
      else if m = 11 then 30 else 31)"

text \<open>
  The days of the year before the first of month \<open>m\<close>. The \<^verbatim>\<open>datetime\<close> constructor
  refuses a month outside 1 to 12, so the table is read within its range.
\<close>

definition days_before_month :: "int \<Rightarrow> int \<Rightarrow> int" where
  "days_before_month y m =
     [0, 31, 59, 90, 120, 151, 181, 212, 243, 273, 304, 334] ! nat (m - 1)
       + (if 2 < m then (if is_leap y then 1 else 0) else 0)"

definition ymd2ord :: "int \<Rightarrow> int \<Rightarrow> int \<Rightarrow> int" where
  "ymd2ord y m d = days_before_year y + days_before_month y m + d"

text \<open>The wall-clock fields as microseconds since the start of day one of year one.\<close>

definition wall_us :: "datetime \<Rightarrow> int" where
  "wall_us dt =
     (((ymd2ord (year dt) (month dt) (day dt) * 24 + hour dt) * 60 + minute dt) * 60
        + second dt) * 1000000 + microsecond dt"

text \<open>
  \<^verbatim>\<open>a <= b\<close> on datetimes: two naive datetimes compare by their fields, two aware ones
  by their instants (the fields minus the offset), and a naive with an aware one raises
  \<^verbatim>\<open>TypeError\<close>.
\<close>

definition cannot_compare :: string where
  "cannot_compare = ''can'' @ [CHR 0x27] @ ''t compare offset-naive and offset-aware datetimes''"

definition dt_le :: "datetime \<Rightarrow> datetime \<Rightarrow> error + bool" where
  "dt_le a b =
     (case tzinfo a of
        None \<Rightarrow>
          (case tzinfo b of
             None \<Rightarrow> Inr (wall_us a \<le> wall_us b)
           | Some ob \<Rightarrow> Inl (TypeError cannot_compare))
      | Some oa \<Rightarrow>
          (case tzinfo b of
             None \<Rightarrow> Inl (TypeError cannot_compare)
           | Some ob \<Rightarrow> Inr (wall_us a - oa \<le> wall_us b - ob)))"

text \<open>\<^verbatim>\<open>s.replace('Z', '+00:00')\<close>: every \<^verbatim>\<open>Z\<close> of the string is replaced.\<close>

definition replace_Z :: "string \<Rightarrow> string" where
  "replace_Z s = concat (map (\<lambda>c. if c = CHR ''Z'' then ''+00:00'' else [c]) s)"

subsection \<open>The handlers\<close>

text \<open>
  \<^verbatim>\<open>is_available\<close>: binding the venue id raises when it does not fit 64 bits.
  Otherwise the answer is whether the conflict query has no row. The stored start is
  compared with the bound end and the bound start with the stored end, each bound text
  after the conversion of the column. The query reads \<^verbatim>\<open>bookings\<close> only.
\<close>

definition conflicts ::
  "(string \<Rightarrow> 'n::linorder option) \<Rightarrow> int \<Rightarrow> string \<Rightarrow> string \<Rightarrow> 'n Booking \<Rightarrow> bool" where
  "conflicts numeric v s e b =
     (b_venue_id b = v \<and> (sql_lt (b_start_time b) (numeric_affinity numeric e)
                          \<and> sql_lt (numeric_affinity numeric s) (b_end_time b)))"

definition is_available ::
  "(string \<Rightarrow> 'n::linorder option) \<Rightarrow> 'n database \<Rightarrow> int \<Rightarrow> string \<Rightarrow> string
     \<Rightarrow> error + bool" where
  "is_available numeric db v s e =
     (if int64 v
      then (let result = find (conflicts numeric v s e) (bookings db) in Inr (result = None))
      else Inl (OverflowError too_large))"


text \<open>
  \<^verbatim>\<open>create_booking\<close>. \<open>fromisoformat\<close> stands for Python's
  \<^verbatim>\<open>datetime.fromisoformat\<close>, with \<open>None\<close> for its \<^verbatim>\<open>ValueError\<close>; it is a
  parameter, so what is proved holds whatever strings the installed Python accepts.
  After the two checks the row is inserted and the venue's name is read on the same
  connection. The source never issues \<^verbatim>\<open>PRAGMA foreign_keys\<close>, so SQLite does not
  enforce the foreign key and the insert succeeds for any venue id.
  When no venue has the id, \<^verbatim>\<open>fetchone()\<close> is \<^verbatim>\<open>None\<close>, subscripting
  it raises, the \<^verbatim>\<open>except\<close> clause closes the connection without a commit and the
  insert is lost: the database is the one before the call.
\<close>

definition not_subscriptable :: string where
  "not_subscriptable =
     [CHR 0x27] @ ''NoneType'' @ [CHR 0x27] @ '' object is not subscriptable''"

definition insert_booking ::
  "(string \<Rightarrow> 'n option) \<Rightarrow> 'n database \<Rightarrow> BookingRequest \<Rightarrow> int \<times> 'n database" where
  "insert_booking numeric db booking =
     (let lastrowid = next_rowid (bookings_seq db) (map b_id (bookings db));
          row = \<lparr>b_id = lastrowid, b_venue_id = venue_id booking,
                 b_booker_name = booker_name booking,
                 b_start_time = numeric_affinity numeric (start_time booking),
                 b_end_time = numeric_affinity numeric (end_time booking)\<rparr>
      in (lastrowid, db\<lparr>bookings := bookings db @ [row], bookings_seq := lastrowid\<rparr>))"

definition create_booking ::
  "(string \<Rightarrow> datetime option) \<Rightarrow> (string \<Rightarrow> 'n::linorder option) \<Rightarrow> 'n database
     \<Rightarrow> BookingRequest \<Rightarrow> (error + BookingResponse) \<times> 'n database" where
  "create_booking fromisoformat numeric db booking =
     (case fromisoformat (replace_Z (start_time booking)) of
        None \<Rightarrow> (Inl (HTTPException 400 ''Invalid datetime format''), db)
      | Some start_dt \<Rightarrow>
     (case fromisoformat (replace_Z (end_time booking)) of
        None \<Rightarrow> (Inl (HTTPException 400 ''Invalid datetime format''), db)
      | Some end_dt \<Rightarrow>
     (case dt_le end_dt start_dt of
        Inl exn \<Rightarrow> (Inl exn, db)
      | Inr le \<Rightarrow>
     if le then (Inl (HTTPException 400 ''End time must be after start time''), db)
     else
     (case is_available numeric db (venue_id booking) (start_time booking)
             (end_time booking) of
        Inl exn \<Rightarrow> (Inl exn, db)
      | Inr available \<Rightarrow>
     if \<not> available
     then (Inl (HTTPException 409 ''Venue is not available for the selected time''), db)
     else
       (let (booking_id, db') = insert_booking numeric db booking in
        case find (\<lambda>v. v_id v = venue_id booking) (venues db') of
          None \<Rightarrow> (Inl (HTTPException 500 (''Database error: '' @ not_subscriptable)), db)
        | Some v \<Rightarrow>
            (Inr \<lparr>r_id = booking_id, r_venue_id = venue_id booking,
                  r_venue_name = v_name v, r_booker_name = booker_name booking,
                  r_start_time = start_time booking, r_end_time = end_time booking\<rparr>,
             db'))))))"

text \<open>
  \<^verbatim>\<open>delete_booking\<close>: binding the id raises when it does not fit 64 bits. Otherwise the
  rows with the id are deleted; no such row is a 404.
\<close>

definition delete_booking :: "'n database \<Rightarrow> int \<Rightarrow> (error + string) \<times> 'n database" where
  "delete_booking db booking_id =
     (if \<not> int64 booking_id then (Inl (OverflowError too_large), db)
      else
       (let rowcount = length (filter (\<lambda>b. b_id b = booking_id) (bookings db)) in
        if rowcount = 0 then (Inl (HTTPException 404 ''Booking not found''), db)
        else (Inr ''Booking deleted successfully'',
              db\<lparr>bookings := filter (\<lambda>b. b_id b \<noteq> booking_id) (bookings db)\<rparr>)))"

text \<open>
  \<^verbatim>\<open>init_database\<close>: when \<^verbatim>\<open>SELECT COUNT(*) FROM venues\<close> is 0, the eight default
  venues are inserted in order, each with the next id.
\<close>

definition default_venues :: "(string \<times> string \<times> int \<times> string) list" where
  "default_venues =
     [(''Lecture Hall A'', ''Room'', 50, ''Building 1, Floor 1''),
      (''Lecture Hall B'', ''Room'', 75, ''Building 1, Floor 2''),
      (''Main Library'', ''Library'', 200, ''Central Building''),
      (''Science Lab 1'', ''Lab'', 30, ''Science Building, Floor 1''),
      (''Auditorium'', ''Auditorium'', 300, ''Main Building''),
      (''Study Room 101'', ''Study Room'', 10, ''Library, Floor 2''),
      (''Computer Lab'', ''Lab'', 25, ''Tech Building, Floor 1''),
      (''Conference Room A'', ''Meeting Room'', 20, ''Admin Building, Floor 3'')]"

definition insert_venue ::
  "string \<times> string \<times> int \<times> string \<Rightarrow> 'n database \<Rightarrow> 'n database" where
  "insert_venue values db =
     (case values of (n, t, c, l) \<Rightarrow>
        (let rowid = next_rowid (venues_seq db) (map v_id (venues db)) in
         db\<lparr>venues := venues db @
               [\<lparr>v_id = rowid, v_name = n, v_type = t, v_capacity = c, v_location = l\<rparr>],
            venues_seq := rowid\<rparr>))"

definition init_database :: "'n database \<Rightarrow> 'n database" where
  "init_database db =
     (if length (venues db) = 0 then fold insert_venue default_venues db else db)"

text \<open>The four values of a venue row that \<^verbatim>\<open>init_database\<close> supplies.\<close>

definition venue_values :: "Venue \<Rightarrow> string \<times> string \<times> int \<times> string" where
  "venue_values v = (v_name v, v_type v, v_capacity v, v_location v)"

subsection \<open>Stand-ins for the two library functions\<close>

text \<open>
  To run the handlers on concrete requests the two parameters need values. The three
  functions below are used at closed instances only, on strings on which they return
  what the library returns.

  \<open>iso_extended\<close> accepts \<^verbatim>\<open>YYYY-MM-DDTHH:MM:SS\<close>, optionally followed by
  \<^verbatim>\<open>+HH:MM\<close> or \<^verbatim>\<open>-HH:MM\<close>, when every field is in its calendar or clock range
  (offset hours below 24, offset minutes below 60), and returns the datetime
  \<^verbatim>\<open>datetime.fromisoformat\<close> returns for it. It refuses every other string, also
  strings that Python accepts.
\<close>

definition digit :: "char \<Rightarrow> int option" where
  "digit c =
     (let n = (of_char c :: nat) in if 48 \<le> n \<and> n \<le> 57 then Some (int n - 48) else None)"

fun number :: "int \<Rightarrow> string \<Rightarrow> int option" where
  "number acc [] = Some acc"
| "number acc (c # cs) =
     (case digit c of None \<Rightarrow> None | Some d \<Rightarrow> number (acc * 10 + d) cs)"

definition two_digits :: "nat \<Rightarrow> string \<Rightarrow> int option" where
  "two_digits i s = number 0 (take 2 (drop i s))"

definition utc_offset :: "string \<Rightarrow> int option option" where
  "utc_offset s =
     (if s = [] then Some None
      else if length s \<noteq> 6 then None
      else if s ! 3 \<noteq> CHR '':'' then None
      else if s ! 0 \<noteq> CHR ''+'' \<and> s ! 0 \<noteq> CHR ''-'' then None
      else
        (case (two_digits 1 s, two_digits 4 s) of
           (Some h, Some m) \<Rightarrow>
             if h < 24 \<and> m < 60
             then Some (Some ((if s ! 0 = CHR ''-'' then - 1 else 1)
                                * ((h * 60 + m) * 60 * 1000000)))
             else None
         | _ \<Rightarrow> None))"

definition iso_extended :: "string \<Rightarrow> datetime option" where
  "iso_extended s =
     (if length s \<noteq> 19 \<and> length s \<noteq> 25 then None
      else if [s ! 4, s ! 7, s ! 10, s ! 13, s ! 16] \<noteq> ''--T::'' then None
      else
        (case (number 0 (take 4 s), two_digits 5 s, two_digits 8 s,
               two_digits 11 s, two_digits 14 s, two_digits 17 s, utc_offset (drop 19 s)) of
           (Some y, Some mo, Some d, Some h, Some mi, Some se, Some tz) \<Rightarrow>
             if 1 \<le> y \<and> 1 \<le> mo \<and> mo \<le> 12 \<and> 1 \<le> d \<and> d \<le> days_in_month y mo
                \<and> h < 24 \<and> mi < 60 \<and> se < 60
             then Some \<lparr>year = y, month = mo, day = d, hour = h, minute = mi,
                         second = se, microsecond = 0, tzinfo = tz\<rparr>
             else None
         | _ \<Rightarrow> None))"

text \<open>
  Python 3.11 and later also read the basic date \<^verbatim>\<open>YYYYMMDD\<close>, as midnight of that
  day. \<open>iso_with_basic_date\<close> adds these eight-digit strings to \<open>iso_extended\<close>.
\<close>

definition iso_with_basic_date :: "string \<Rightarrow> datetime option" where
  "iso_with_basic_date s =
     (if length s = 8
      then (case (number 0 (take 4 s), two_digits 4 s, two_digits 6 s) of
              (Some y, Some mo, Some d) \<Rightarrow>
                if 1 \<le> y \<and> 1 \<le> mo \<and> mo \<le> 12 \<and> 1 \<le> d \<and> d \<le> days_in_month y mo
                then Some \<lparr>year = y, month = mo, day = d, hour = 0, minute = 0,
                            second = 0, microsecond = 0, tzinfo = None\<rparr>
                else None
            | _ \<Rightarrow> None)
      else iso_extended s)"

text \<open>
  \<open>integer_literal\<close> reads a string of one to eighteen decimal digits as the integer it
  denotes, which is the INTEGER SQLite stores for it, and takes every other string for
  no literal. That is SQLite's answer for a string with a character that no numeric
  literal has, such as the \<^verbatim>\<open>:\<close> of a timestamp with a time of day; signed,
  fractional and exponent literals are outside of what it covers.
\<close>

definition integer_literal :: "string \<Rightarrow> int option" where
  "integer_literal s = (if s = [] \<or> 18 < length s then None else number 0 s)"

subsection \<open>The invariant of the specification\<close>

text \<open>
  The specification's overlap predicate on two half-open intervals of timestamps:
  \<open>[s1, e1)\<close> and \<open>[s2, e2)\<close> overlap iff \<open>s1 < e2\<close> and \<open>s2 < e1\<close>.
  \<open>a < b\<close> on datetimes is Python's: \<open>b \<le> a\<close> is defined and false.
\<close>

definition dt_lt :: "datetime \<Rightarrow> datetime \<Rightarrow> bool" where
  "dt_lt a b = (dt_le b a = Inr False)"

definition overlap :: "datetime \<times> datetime \<Rightarrow> datetime \<times> datetime \<Rightarrow> bool" where
  "overlap i j = (dt_lt (fst i) (snd j) \<and> dt_lt (fst j) (snd i))"

text \<open>
  The interval a pair of timestamp strings denotes, read the way \<^verbatim>\<open>create_booking\<close>
  reads the strings of a request.
\<close>

definition interval ::
  "(string \<Rightarrow> datetime option) \<Rightarrow> string \<Rightarrow> string \<Rightarrow> (datetime \<times> datetime) option" where
  "interval fromisoformat s e =
     (case (fromisoformat (replace_Z s), fromisoformat (replace_Z e)) of
        (Some a, Some b) \<Rightarrow> Some (a, b)
      | _ \<Rightarrow> None)"

definition overlapping ::
  "(string \<Rightarrow> datetime option) \<Rightarrow> string \<times> string \<Rightarrow> string \<times> string \<Rightarrow> bool" where
  "overlapping fromisoformat x y =
     (case (interval fromisoformat (fst x) (snd x), interval fromisoformat (fst y) (snd y)) of
        (Some i, Some j) \<Rightarrow> overlap i j
      | _ \<Rightarrow> False)"

text \<open>Back to back: the first interval ends at the instant at which the second starts.\<close>

definition meets ::
  "(string \<Rightarrow> datetime option) \<Rightarrow> string \<times> string \<Rightarrow> string \<times> string \<Rightarrow> bool" where
  "meets fromisoformat x y =
     (case (interval fromisoformat (fst x) (snd x), interval fromisoformat (fst y) (snd y)) of
        (Some i, Some j) \<Rightarrow>
          dt_le (snd i) (fst j) = Inr True \<and> dt_le (fst j) (snd i) = Inr True
      | _ \<Rightarrow> False)"

text \<open>The two timestamps of a stored booking, when both are stored as text.\<close>

definition booked :: "'n Booking \<Rightarrow> (string \<times> string) option" where
  "booked b =
     (case (b_start_time b, b_end_time b) of
        (Text s, Text e) \<Rightarrow> Some (s, e)
      | _ \<Rightarrow> None)"

text \<open>
  The specification's invariant: two distinct stored bookings of one venue never overlap.
\<close>

definition compatible ::
  "(string \<Rightarrow> datetime option) \<Rightarrow> 'n Booking \<Rightarrow> 'n Booking \<Rightarrow> bool" where
  "compatible fromisoformat b c =
     (if b_id b = b_id c then True
      else if b_venue_id b = b_venue_id c
      then (case (booked b, booked c) of
              (Some x, Some y) \<Rightarrow> \<not> overlapping fromisoformat x y
            | _ \<Rightarrow> True)
      else True)"

definition non_overlapping :: "(string \<Rightarrow> datetime option) \<Rightarrow> 'n database \<Rightarrow> bool" where
  "non_overlapping fromisoformat db =
     list_all (\<lambda>b. list_all (compatible fromisoformat b) (bookings db)) (bookings db)"

text \<open>
  The same invariant in the order of the conflict query: two distinct stored bookings of
  one venue never have \<open>start < end\<close> both ways as the database compares the values.
\<close>

definition disjoint_as_stored :: "'n::linorder database \<Rightarrow> bool" where
  "disjoint_as_stored db =
     list_all (\<lambda>b. list_all (\<lambda>c.
         if b_id b = b_id c then True
         else if b_venue_id b = b_venue_id c
         then \<not> (sql_lt (b_start_time b) (b_end_time c) \<and> sql_lt (b_start_time c) (b_end_time b))
         else True) (bookings db)) (bookings db)"

subsection \<open>Sequences of admissions and deletions\<close>

datatype operation = Admit BookingRequest | Delete int

fun step ::
  "(string \<Rightarrow> datetime option) \<Rightarrow> (string \<Rightarrow> 'n::linorder option) \<Rightarrow> 'n database
     \<Rightarrow> operation \<Rightarrow> 'n database" where
  "step fromisoformat numeric db (Admit booking) =
     snd (create_booking fromisoformat numeric db booking)"
| "step fromisoformat numeric db (Delete booking_id) = snd (delete_booking db booking_id)"

definition run ::
  "(string \<Rightarrow> datetime option) \<Rightarrow> (string \<Rightarrow> 'n::linorder option) \<Rightarrow> 'n database
     \<Rightarrow> operation list \<Rightarrow> 'n database" where
  "run fromisoformat numeric db ops = foldl (step fromisoformat numeric) db ops"

subsection \<open>Auxiliary facts\<close>

lemma text_lt_irrefl: "\<not> text_lt s s"
  by (induction s) auto

lemma sql_lt_irrefl: "\<not> sql_lt x x"
  by (cases x) (simp_all add: text_lt_irrefl)

lemma find_None_iff_all: "(find P xs = None) = (\<forall>x\<in>set xs. \<not> P x)"
  by (induction xs) auto

lemma is_available_iff:
  "int64 v \<Longrightarrow>
     is_available numeric db v s e = Inr (\<forall>b\<in>set (bookings db). \<not> conflicts numeric v s e b)"
  by (simp add: is_available_def find_None_iff_all)

lemma is_available_overflow:
  "\<not> int64 v \<Longrightarrow> is_available numeric db v s e = Inl (OverflowError too_large)"
  by (simp add: is_available_def)

lemma venues_insert_booking: "venues (snd (insert_booking numeric db booking)) = venues db"
  by (simp add: insert_booking_def Let_def)

lemma bookings_insert_booking:
  "bookings (snd (insert_booking numeric db booking)) = bookings db @
     [\<lparr>b_id = fst (insert_booking numeric db booking), b_venue_id = venue_id booking,
       b_booker_name = booker_name booking,
       b_start_time = numeric_affinity numeric (start_time booking),
       b_end_time = numeric_affinity numeric (end_time booking)\<rparr>]"
  by (simp add: insert_booking_def Let_def)

lemma fst_insert_booking:
  "fst (insert_booking numeric db booking) =
     next_rowid (bookings_seq db) (map b_id (bookings db))"
  by (simp add: insert_booking_def Let_def)

lemma fold_max_start: "(a::int) \<le> fold max ys a"
  by (induction ys arbitrary: a) (auto intro: order_trans[OF max.cobounded2])

lemma fold_max_ge: "(x::int) \<in> set xs \<Longrightarrow> x \<le> fold max xs a"
proof (induction xs arbitrary: a)
  case Nil
  then show ?case by simp
next
  case (Cons y ys)
  show ?case
  proof (cases "x = y")
    case True
    have "y \<le> max y a" by simp
    also have "\<dots> \<le> fold max ys (max y a)" by (rule fold_max_start)
    finally show ?thesis using True by simp
  next
    case False
    with Cons show ?thesis by simp
  qed
qed

text \<open>A new id is none of the ids in the table.\<close>

lemma next_rowid_fresh: "next_rowid seq ids \<notin> set ids"
proof
  assume "next_rowid seq ids \<in> set ids"
  then have "next_rowid seq ids \<le> fold max ids seq" by (rule fold_max_ge)
  then show False by (simp add: next_rowid_def)
qed

text \<open>
  \<^verbatim>\<open>create_booking\<close> on a request whose two timestamps parse, whose end is after its
  start and whose venue id fits 64 bits: the three ways it goes on.
\<close>

lemma create_booking_valid:
  assumes "p (replace_Z (start_time booking)) = Some s"
    and "p (replace_Z (end_time booking)) = Some e"
    and "dt_le e s = Inr False"
    and "int64 (venue_id booking)"
  shows "create_booking p numeric db booking =
     (if is_available numeric db (venue_id booking) (start_time booking) (end_time booking)
           \<noteq> Inr True
      then (Inl (HTTPException 409 ''Venue is not available for the selected time''), db)
      else (case find (\<lambda>v. v_id v = venue_id booking) (venues db) of
          None \<Rightarrow> (Inl (HTTPException 500 (''Database error: '' @ not_subscriptable)), db)
        | Some v \<Rightarrow>
            (Inr \<lparr>r_id = fst (insert_booking numeric db booking),
                  r_venue_id = venue_id booking,
                  r_venue_name = v_name v, r_booker_name = booker_name booking,
                  r_start_time = start_time booking, r_end_time = end_time booking\<rparr>,
             snd (insert_booking numeric db booking))))"
  using assms
  by (simp add: create_booking_def is_available_iff venues_insert_booking split_beta Let_def
      split: option.splits)

text \<open>What a successful call tells about the request and the database before it.\<close>

lemma create_booking_Inr:
  assumes "create_booking p numeric db booking = (Inr r, db')"
  shows "\<exists>s e v. p (replace_Z (start_time booking)) = Some s
          \<and> p (replace_Z (end_time booking)) = Some e \<and> dt_le e s = Inr False
          \<and> int64 (venue_id booking)
          \<and> is_available numeric db (venue_id booking) (start_time booking)
               (end_time booking) = Inr True
          \<and> find (\<lambda>v. v_id v = venue_id booking) (venues db) = Some v
          \<and> r = \<lparr>r_id = fst (insert_booking numeric db booking),
                  r_venue_id = venue_id booking,
                  r_venue_name = v_name v, r_booker_name = booker_name booking,
                  r_start_time = start_time booking, r_end_time = end_time booking\<rparr>
          \<and> db' = snd (insert_booking numeric db booking)"
proof -
  have fits: "int64 (venue_id booking)"
  proof (rule ccontr)
    assume "\<not> int64 (venue_id booking)"
    then show False
      using assms
      by (auto simp: create_booking_def is_available_overflow
          split: option.splits sum.splits if_splits)
  qed
  show ?thesis
    using assms fits
    by (auto simp: create_booking_def is_available_iff split_beta Let_def
        venues_insert_booking split: option.splits sum.splits if_splits)
qed

text \<open>Timestamps used below, as the stand-in parser reads them.\<close>

lemma parse_10Z:
  "iso_extended (replace_Z ''2024-01-01T10:00:00Z'') =
     Some \<lparr>year = 2024, month = 1, day = 1, hour = 10, minute = 0, second = 0,
           microsecond = 0, tzinfo = Some 0\<rparr>"
  by code_simp

lemma parse_11Z:
  "iso_extended (replace_Z ''2024-01-01T11:00:00Z'') =
     Some \<lparr>year = 2024, month = 1, day = 1, hour = 11, minute = 0, second = 0,
           microsecond = 0, tzinfo = Some 0\<rparr>"
  by code_simp

lemma parse_12Z:
  "iso_extended (replace_Z ''2024-01-01T12:00:00Z'') =
     Some \<lparr>year = 2024, month = 1, day = 1, hour = 12, minute = 0, second = 0,
           microsecond = 0, tzinfo = Some 0\<rparr>"
  by code_simp

lemma parse_garbage: "iso_extended (replace_Z ''tomorrow at ten'') = None"
  by code_simp

lemma insert_venue_venues:
  "venues (insert_venue x db) = venues db @
     [\<lparr>v_id = next_rowid (venues_seq db) (map v_id (venues db)), v_name = fst x,
       v_type = fst (snd x), v_capacity = fst (snd (snd x)), v_location = snd (snd (snd x))\<rparr>]"
  by (cases x) (simp add: insert_venue_def Let_def)

lemma insert_venue_bookings: "bookings (insert_venue x db) = bookings db"
  by (cases x) (simp add: insert_venue_def Let_def)

lemma fold_insert_venue_values:
  "map venue_values (venues (fold insert_venue xs db)) = map venue_values (venues db) @ xs"
  by (induction xs arbitrary: db) (simp_all add: insert_venue_venues venue_values_def)

lemma fold_insert_venue_distinct:
  "distinct (map v_id (venues db)) \<Longrightarrow> distinct (map v_id (venues (fold insert_venue xs db)))"
proof (induction xs arbitrary: db)
  case Nil
  then show ?case by simp
next
  case (Cons x xs)
  have "distinct (map v_id (venues (insert_venue x db)))"
    using Cons.prems next_rowid_fresh [of "venues_seq db" "map v_id (venues db)"]
    by (simp add: insert_venue_venues)
  then show ?case using Cons.IH by simp
qed

lemma fold_insert_venue_bookings: "bookings (fold insert_venue xs db) = bookings db"
  by (induction xs arbitrary: db) (simp_all add: insert_venue_bookings)

text \<open>A first admission on the seeded database, and two comparisons of instants.\<close>

lemma first_admitted:
  "create_booking iso_extended integer_literal (init_database empty_database)
     \<lparr>venue_id = 1, booker_name = ''ann'', start_time = ''2024-01-01T10:00:00Z'',
      end_time = ''2024-01-01T11:00:00Z''\<rparr>
   = (Inr \<lparr>r_id = 1, r_venue_id = 1, r_venue_name = ''Lecture Hall A'',
           r_booker_name = ''ann'', r_start_time = ''2024-01-01T10:00:00Z'',
           r_end_time = ''2024-01-01T11:00:00Z''\<rparr>,
      (init_database empty_database)
        \<lparr>bookings := [\<lparr>b_id = 1, b_venue_id = 1, b_booker_name = ''ann'',
                        b_start_time = Text ''2024-01-01T10:00:00Z'',
                        b_end_time = Text ''2024-01-01T11:00:00Z''\<rparr>],
         bookings_seq := 1\<rparr>)"
  by code_simp

lemma le_11_10: "dt_le \<lparr>year = 2024, month = 1, day = 1, hour = 11, minute = 0, second = 0,
                   microsecond = 0, tzinfo = Some 0\<rparr>
                  \<lparr>year = 2024, month = 1, day = 1, hour = 10, minute = 0, second = 0,
                   microsecond = 0, tzinfo = Some 0\<rparr> = Inr False"
  by code_simp

lemma le_12_11: "dt_le \<lparr>year = 2024, month = 1, day = 1, hour = 12, minute = 0, second = 0,
                   microsecond = 0, tzinfo = Some 0\<rparr>
                  \<lparr>year = 2024, month = 1, day = 1, hour = 11, minute = 0, second = 0,
                   microsecond = 0, tzinfo = Some 0\<rparr> = Inr False"
  by code_simp

section \<open>Invalid intervals\<close>

text \<open>
  The 400 path. A request in which a timestamp does not parse, or whose two timestamps
  are comparable with the end at or before the start, is answered with status 400. The
  answer is the same whatever the database holds, so neither the bookings nor the venues
  are looked at before it, and the database after the call is the database before it.
\<close>

lemma invalid_interval_rejected:
  assumes "p (replace_Z (start_time booking)) = None
           \<or> p (replace_Z (end_time booking)) = None
           \<or> (\<exists>s e. p (replace_Z (start_time booking)) = Some s
                   \<and> p (replace_Z (end_time booking)) = Some e \<and> dt_le e s = Inr True)"
  shows "\<exists>detail. \<forall>db.
           create_booking p numeric db booking = (Inl (HTTPException 400 detail), db)"
proof (cases "p (replace_Z (start_time booking))")
  case None
  then show ?thesis by (simp add: create_booking_def)
next
  case (Some s)
  note start = Some
  show ?thesis
  proof (cases "p (replace_Z (end_time booking))")
    case None
    with start show ?thesis by (simp add: create_booking_def)
  next
    case (Some e)
    with start assms have "dt_le e s = Inr True" by simp
    with start Some show ?thesis by (simp add: create_booking_def)
  qed
qed

text \<open>
  A request with one naive and one aware timestamp takes another path: the comparison
  raises outside of the \<^verbatim>\<open>try\<close>, and the exception leaves the handler.
\<close>

lemma naive_with_aware_raises:
  assumes "p (replace_Z (start_time booking)) = Some s"
    and "p (replace_Z (end_time booking)) = Some e"
    and "(tzinfo s = None) \<noteq> (tzinfo e = None)"
  shows "create_booking p numeric db booking = (Inl (TypeError cannot_compare), db)"
  using assms by (auto simp: create_booking_def dt_le_def split: option.splits)

text \<open>
  C5. The code does not reject every interval whose end is not after its start. The
  request below starts at noon of 1 January 2024, written with \<^verbatim>\<open>Z\<close>, and ends at
  10:00 of 1 January 2023, written without an offset: the end is a year before the start
  (by more than a day on the wall clock, so under any offset). Both timestamps parse,
  the comparison of the aware start with the naive end raises \<^verbatim>\<open>TypeError\<close>, and the
  answer is that exception, not status 400. The database is unchanged.
\<close>

theorem naive_end_before_aware_start:
  "iso_extended (replace_Z ''2024-01-01T12:00:00Z'') =
     Some \<lparr>year = 2024, month = 1, day = 1, hour = 12, minute = 0, second = 0,
           microsecond = 0, tzinfo = Some 0\<rparr>
   \<and> iso_extended (replace_Z ''2023-01-01T10:00:00'') =
     Some \<lparr>year = 2023, month = 1, day = 1, hour = 10, minute = 0, second = 0,
           microsecond = 0, tzinfo = None\<rparr>
   \<and> wall_us \<lparr>year = 2023, month = 1, day = 1, hour = 10, minute = 0, second = 0,
           microsecond = 0, tzinfo = None\<rparr> + 24 * 3600 * 1000000
       < wall_us \<lparr>year = 2024, month = 1, day = 1, hour = 12, minute = 0, second = 0,
           microsecond = 0, tzinfo = Some 0\<rparr>
   \<and> create_booking iso_extended integer_literal (init_database empty_database)
       \<lparr>venue_id = 1, booker_name = ''ann'', start_time = ''2024-01-01T12:00:00Z'',
        end_time = ''2023-01-01T10:00:00''\<rparr>
     = (Inl (TypeError cannot_compare), init_database empty_database)"
  by code_simp

section \<open>Requests for a venue that does not exist\<close>

text \<open>
  \<^verbatim>\<open>create_booking\<close> has no check that the venue exists. A request with a valid
  interval for an id that no venue has goes through the conflict query first; when the
  query finds no row, the row is inserted, reading the venue's name fails, the insert is
  not committed and the answer is status 500.
\<close>

lemma unknown_venue_never_admitted:
  assumes "p (replace_Z (start_time booking)) = Some s"
    and "p (replace_Z (end_time booking)) = Some e"
    and "dt_le e s = Inr False"
    and "int64 (venue_id booking)"
    and "find (\<lambda>v. v_id v = venue_id booking) (venues db) = None"
  shows "create_booking p numeric db booking =
     (if is_available numeric db (venue_id booking) (start_time booking) (end_time booking)
           = Inr True
      then Inl (HTTPException 500 (''Database error: '' @ not_subscriptable))
      else Inl (HTTPException 409 ''Venue is not available for the selected time''), db)"
  using create_booking_valid [OF assms(1-4), of numeric db] assms(5) by simp

text \<open>
  C3. The code does not answer a request for an unknown venue with a not-found error.
  No venue of the seeded registry has id 99. A valid request for venue 99 on the seeded
  database, which has no booking, is answered with status 500 and the detail of a
  database error, after the conflict query has run. The database is unchanged.
\<close>

theorem unknown_venue_server_error:
  "find (\<lambda>v. v_id v = 99) (venues (init_database empty_database)) = None
   \<and> is_available integer_literal (init_database empty_database) 99
        ''2024-01-01T10:00:00Z'' ''2024-01-01T11:00:00Z'' = Inr True
   \<and> create_booking iso_extended integer_literal (init_database empty_database)
       \<lparr>venue_id = 99, booker_name = ''ann'', start_time = ''2024-01-01T10:00:00Z'',
        end_time = ''2024-01-01T11:00:00Z''\<rparr>
     = (Inl (HTTPException 500 (''Database error: '' @ not_subscriptable)),
        init_database empty_database)"
  by code_simp

section \<open>The boundary of the conflict query\<close>

text \<open>
  In the order of the stored values the query is strict on both sides: a stored booking
  whose end is the value of the requested start, or whose start is the value of the
  requested end, is no conflict. So after \<open>[t0, t1)\<close> has been admitted on a venue, a
  valid request \<open>[t1, t2)\<close> with the same text \<open>t1\<close> that met no conflict before is
  admitted as well.
\<close>

lemma shared_value_no_conflict:
  "b_end_time c = numeric_affinity numeric s \<or> b_start_time c = numeric_affinity numeric e
     \<Longrightarrow> \<not> conflicts numeric v s e c"
  by (auto simp: conflicts_def sql_lt_irrefl)

lemma adjacent_same_text_admitted:
  assumes first: "create_booking p numeric db
         \<lparr>venue_id = v, booker_name = n1, start_time = t0, end_time = t1\<rparr> = (Inr r1, db1)"
    and parse: "p (replace_Z t1) = Some a" "p (replace_Z t2) = Some b" "dt_le b a = Inr False"
    and free: "is_available numeric db v t1 t2 = Inr True"
  shows "\<exists>r2 db2. create_booking p numeric db1
              \<lparr>venue_id = v, booker_name = n2, start_time = t1, end_time = t2\<rparr>
             = (Inr r2, db2)"
proof -
  let ?first = "\<lparr>venue_id = v, booker_name = n1, start_time = t0, end_time = t1\<rparr>"
  let ?second = "\<lparr>venue_id = v, booker_name = n2, start_time = t1, end_time = t2\<rparr>"
  from create_booking_Inr [OF first] obtain w where
    fits: "int64 v" and
    w: "find (\<lambda>x. v_id x = v) (venues db) = Some w" and
    db1: "db1 = snd (insert_booking numeric db ?first)"
    by auto
  have venue: "find (\<lambda>x. v_id x = venue_id ?second) (venues db1) = Some w"
    using w db1 by (simp add: venues_insert_booking)
  have "is_available numeric db1 (venue_id ?second) (start_time ?second) (end_time ?second)
          = Inr True"
    using free db1 fits
    by (auto simp: is_available_iff bookings_insert_booking conflicts_def sql_lt_irrefl)
  moreover have "p (replace_Z (start_time ?second)) = Some a"
      "p (replace_Z (end_time ?second)) = Some b" "int64 (venue_id ?second)"
    using parse fits by simp_all
  ultimately show ?thesis
    using create_booking_valid [of p ?second a b numeric db1] parse(3) venue by simp
qed

text \<open>
  C4. Read on instants, the boundary policy does not hold of the code. On the seeded
  database the booking 10:00 to 11:00 at offset +00:00 of venue 1 is admitted. The
  request 09:00 to 10:00 at offset -02:00 for the same venue is 11:00 to 12:00 at
  +00:00: it starts at the instant at which the stored booking ends and does not overlap
  it. The code answers 409: as texts, the stored start \<^verbatim>\<open>...T10:00:00+00:00\<close> is below
  the requested end \<^verbatim>\<open>...T10:00:00-02:00\<close> and the requested start
  \<^verbatim>\<open>...T09:00:00-02:00\<close> is below the stored end \<^verbatim>\<open>...T11:00:00+00:00\<close>.
\<close>

theorem adjacent_booking_refused:
  "create_booking iso_extended integer_literal (init_database empty_database)
     \<lparr>venue_id = 1, booker_name = ''ann'', start_time = ''2024-01-01T10:00:00+00:00'',
      end_time = ''2024-01-01T11:00:00+00:00''\<rparr>
   = (Inr \<lparr>r_id = 1, r_venue_id = 1, r_venue_name = ''Lecture Hall A'',
           r_booker_name = ''ann'', r_start_time = ''2024-01-01T10:00:00+00:00'',
           r_end_time = ''2024-01-01T11:00:00+00:00''\<rparr>,
      (init_database empty_database)
        \<lparr>bookings := [\<lparr>b_id = 1, b_venue_id = 1, b_booker_name = ''ann'',
                        b_start_time = Text ''2024-01-01T10:00:00+00:00'',
                        b_end_time = Text ''2024-01-01T11:00:00+00:00''\<rparr>],
         bookings_seq := 1\<rparr>)
   \<and> meets iso_extended
        (''2024-01-01T10:00:00+00:00'', ''2024-01-01T11:00:00+00:00'')
        (''2024-01-01T09:00:00-02:00'', ''2024-01-01T10:00:00-02:00'')
   \<and> \<not> overlapping iso_extended
        (''2024-01-01T10:00:00+00:00'', ''2024-01-01T11:00:00+00:00'')
        (''2024-01-01T09:00:00-02:00'', ''2024-01-01T10:00:00-02:00'')
   \<and> create_booking iso_extended integer_literal
       ((init_database empty_database)
        \<lparr>bookings := [\<lparr>b_id = 1, b_venue_id = 1, b_booker_name = ''ann'',
                        b_start_time = Text ''2024-01-01T10:00:00+00:00'',
                        b_end_time = Text ''2024-01-01T11:00:00+00:00''\<rparr>],
         bookings_seq := 1\<rparr>)
       \<lparr>venue_id = 1, booker_name = ''bob'', start_time = ''2024-01-01T09:00:00-02:00'',
        end_time = ''2024-01-01T10:00:00-02:00''\<rparr>
     = (Inl (HTTPException 409 ''Venue is not available for the selected time''),
        (init_database empty_database)
        \<lparr>bookings := [\<lparr>b_id = 1, b_venue_id = 1, b_booker_name = ''ann'',
                        b_start_time = Text ''2024-01-01T10:00:00+00:00'',
                        b_end_time = Text ''2024-01-01T11:00:00+00:00''\<rparr>],
         bookings_seq := 1\<rparr>)"
  by code_simp

section \<open>The availability query\<close>




section \<open>What an admission stores and returns\<close>

text \<open>
  C10, as the code has it. A successful \<^verbatim>\<open>create_booking\<close> returns the start and end
  strings, the venue id and the booker name of the request unchanged, with a new booking
  id that no stored booking has and the stored name of the venue with that id. The row
  it appends holds the same id, venue id and booker name, and the two timestamps as the
  column's affinity converts them: the submitted text when it is no numeric literal.
\<close>

theorem stored_after_affinity:
  assumes "create_booking p numeric db booking = (Inr r, db')"
  shows "r_start_time r = start_time booking \<and> r_end_time r = end_time booking
       \<and> r_venue_id r = venue_id booking \<and> r_booker_name r = booker_name booking
       \<and> r_id r = next_rowid (bookings_seq db) (map b_id (bookings db))
       \<and> r_id r \<notin> set (map b_id (bookings db))
       \<and> (\<exists>v. find (\<lambda>v. v_id v = venue_id booking) (venues db) = Some v
              \<and> r_venue_name r = v_name v)
       \<and> bookings db' = bookings db @
            [\<lparr>b_id = r_id r, b_venue_id = venue_id booking,
              b_booker_name = booker_name booking,
              b_start_time = numeric_affinity numeric (start_time booking),
              b_end_time = numeric_affinity numeric (end_time booking)\<rparr>]
       \<and> (numeric (start_time booking) = None
            \<longrightarrow> b_start_time (last (bookings db')) = Text (start_time booking))
       \<and> (numeric (end_time booking) = None
            \<longrightarrow> b_end_time (last (bookings db')) = Text (end_time booking))
       \<and> venues db' = venues db"
proof -
  from create_booking_Inr [OF assms] obtain v where
    v: "find (\<lambda>v. v_id v = venue_id booking) (venues db) = Some v" and
    r: "r = \<lparr>r_id = fst (insert_booking numeric db booking), r_venue_id = venue_id booking,
             r_venue_name = v_name v, r_booker_name = booker_name booking,
             r_start_time = start_time booking, r_end_time = end_time booking\<rparr>" and
    db': "db' = snd (insert_booking numeric db booking)"
    by blast
  have fresh: "r_id r \<notin> set (map b_id (bookings db))"
    using r next_rowid_fresh [of "bookings_seq db" "map b_id (bookings db)"]
    by (simp add: fst_insert_booking)
  show ?thesis
    using v r db' fresh
    by (simp add: bookings_insert_booking venues_insert_booking fst_insert_booking
        numeric_affinity_def)
qed

text \<open>
  With a Python that reads the basic date \<^verbatim>\<open>YYYYMMDD\<close>, the request from
  \<^verbatim>\<open>00010101\<close> to \<^verbatim>\<open>00010102\<close> is admitted and answered with these two strings,
  and the row holds the integers 10101 and 10102: the stored timestamps are not the
  submitted characters.
\<close>

theorem numeric_timestamp_stored_as_number:
  "create_booking iso_with_basic_date integer_literal (init_database empty_database)
     \<lparr>venue_id = 1, booker_name = ''ann'', start_time = ''00010101'',
      end_time = ''00010102''\<rparr>
   = (Inr \<lparr>r_id = 1, r_venue_id = 1, r_venue_name = ''Lecture Hall A'',
           r_booker_name = ''ann'', r_start_time = ''00010101'',
           r_end_time = ''00010102''\<rparr>,
      (init_database empty_database)
        \<lparr>bookings := [\<lparr>b_id = 1, b_venue_id = 1, b_booker_name = ''ann'',
                        b_start_time = Number 10101, b_end_time = Number 10102\<rparr>],
         bookings_seq := 1\<rparr>)"
  by code_simp

theorem stored_after_affinity_witness:
  "create_booking iso_extended integer_literal (init_database empty_database)
     \<lparr>venue_id = 1, booker_name = ''ann'', start_time = ''2024-01-01T10:00:00Z'',
      end_time = ''2024-01-01T11:00:00Z''\<rparr>
   = (Inr \<lparr>r_id = 1, r_venue_id = 1, r_venue_name = ''Lecture Hall A'',
           r_booker_name = ''ann'', r_start_time = ''2024-01-01T10:00:00Z'',
           r_end_time = ''2024-01-01T11:00:00Z''\<rparr>,
      (init_database empty_database)
        \<lparr>bookings := [\<lparr>b_id = 1, b_venue_id = 1, b_booker_name = ''ann'',
                        b_start_time = Text ''2024-01-01T10:00:00Z'',
                        b_end_time = Text ''2024-01-01T11:00:00Z''\<rparr>],
         bookings_seq := 1\<rparr>)
   \<and> integer_literal ''2024-01-01T10:00:00Z'' = None
   \<and> integer_literal ''2024-01-01T11:00:00Z'' = None
   \<and> bookings ((init_database empty_database)
        \<lparr>bookings := [\<lparr>b_id = 1, b_venue_id = 1, b_booker_name = ''ann'',
                        b_start_time = Text ''2024-01-01T10:00:00Z'',
                        b_end_time = Text ''2024-01-01T11:00:00Z''\<rparr>],
         bookings_seq := 1\<rparr>)
     = bookings (init_database (empty_database :: int database)) @
         [\<lparr>b_id = 1, b_venue_id = 1, b_booker_name = ''ann'',
           b_start_time = numeric_affinity integer_literal ''2024-01-01T10:00:00Z'',
           b_end_time = numeric_affinity integer_literal ''2024-01-01T11:00:00Z''\<rparr>]"
proof -
  have s: "integer_literal ''2024-01-01T10:00:00Z'' = None" by code_simp
  have e: "integer_literal ''2024-01-01T11:00:00Z'' = None" by code_simp
  show ?thesis
    using stored_after_affinity [OF first_admitted] first_admitted s e by simp
qed

section \<open>Seeding the venues\<close>

text \<open>
  C8. On an empty venue table \<^verbatim>\<open>init_database\<close> inserts the eight default venues, in
  order and under distinct ids; on a table with a row it changes nothing. Running it
  twice is running it once, and the default list itself has no duplicate. The bookings
  are never touched.
\<close>

theorem seeding_idempotent:
  "(venues db = [] \<longrightarrow>
      map venue_values (venues (init_database db)) = default_venues
      \<and> distinct (map v_id (venues (init_database db))))
   \<and> (venues db \<noteq> [] \<longrightarrow> init_database db = db)
   \<and> init_database (init_database db) = init_database db
   \<and> bookings (init_database db) = bookings db
   \<and> distinct default_venues"
proof (intro conjI impI)
  assume e: "venues db = []"
  then show "map venue_values (venues (init_database db)) = default_venues"
    by (simp add: init_database_def fold_insert_venue_values)
  from e show "distinct (map v_id (venues (init_database db)))"
    by (simp add: init_database_def fold_insert_venue_distinct)
next
  assume "venues db \<noteq> []"
  then show "init_database db = db" by (simp add: init_database_def)
next
  show "init_database (init_database db) = init_database db"
  proof (cases "venues db = []")
    case True
    have "default_venues \<noteq> []" by (simp add: default_venues_def)
    then have "map venue_values (venues (fold insert_venue default_venues db)) \<noteq> []"
      by (simp add: fold_insert_venue_values)
    then have "venues (fold insert_venue default_venues db) \<noteq> []" by auto
    then show ?thesis using True by (simp add: init_database_def)
  next
    case False
    then show ?thesis by (simp add: init_database_def)
  qed
next
  show "bookings (init_database db) = bookings db"
    by (simp add: init_database_def fold_insert_venue_bookings)
next
  show "distinct default_venues" by (simp add: default_venues_def)
qed

theorem seeding_idempotent_witness:
  "venues (init_database (init_database (empty_database :: 'n database))) =
     [\<lparr>v_id = 1, v_name = ''Lecture Hall A'', v_type = ''Room'', v_capacity = 50,
        v_location = ''Building 1, Floor 1''\<rparr>,
      \<lparr>v_id = 2, v_name = ''Lecture Hall B'', v_type = ''Room'', v_capacity = 75,
        v_location = ''Building 1, Floor 2''\<rparr>,
      \<lparr>v_id = 3, v_name = ''Main Library'', v_type = ''Library'', v_capacity = 200,
        v_location = ''Central Building''\<rparr>,
      \<lparr>v_id = 4, v_name = ''Science Lab 1'', v_type = ''Lab'', v_capacity = 30,
        v_location = ''Science Building, Floor 1''\<rparr>,
      \<lparr>v_id = 5, v_name = ''Auditorium'', v_type = ''Auditorium'', v_capacity = 300,
        v_location = ''Main Building''\<rparr>,
      \<lparr>v_id = 6, v_name = ''Study Room 101'', v_type = ''Study Room'', v_capacity = 10,
        v_location = ''Library, Floor 2''\<rparr>,
      \<lparr>v_id = 7, v_name = ''Computer Lab'', v_type = ''Lab'', v_capacity = 25,
        v_location = ''Tech Building, Floor 1''\<rparr>,
      \<lparr>v_id = 8, v_name = ''Conference Room A'', v_type = ''Meeting Room'', v_capacity = 20,
        v_location = ''Admin Building, Floor 3''\<rparr>]
   \<and> venues (empty_database :: 'n database) = []
   \<and> venues (init_database (empty_database :: 'n database)) \<noteq> []
   \<and> init_database (init_database (empty_database :: 'n database)) = init_database (empty_database :: 'n database)"
proof -
  have one: "venues (init_database (empty_database :: 'n database)) =
     [\<lparr>v_id = 1, v_name = ''Lecture Hall A'', v_type = ''Room'', v_capacity = 50,
        v_location = ''Building 1, Floor 1''\<rparr>,
      \<lparr>v_id = 2, v_name = ''Lecture Hall B'', v_type = ''Room'', v_capacity = 75,
        v_location = ''Building 1, Floor 2''\<rparr>,
      \<lparr>v_id = 3, v_name = ''Main Library'', v_type = ''Library'', v_capacity = 200,
        v_location = ''Central Building''\<rparr>,
      \<lparr>v_id = 4, v_name = ''Science Lab 1'', v_type = ''Lab'', v_capacity = 30,
        v_location = ''Science Building, Floor 1''\<rparr>,
      \<lparr>v_id = 5, v_name = ''Auditorium'', v_type = ''Auditorium'', v_capacity = 300,
        v_location = ''Main Building''\<rparr>,
      \<lparr>v_id = 6, v_name = ''Study Room 101'', v_type = ''Study Room'', v_capacity = 10,
        v_location = ''Library, Floor 2''\<rparr>,
      \<lparr>v_id = 7, v_name = ''Computer Lab'', v_type = ''Lab'', v_capacity = 25,
        v_location = ''Tech Building, Floor 1''\<rparr>,
      \<lparr>v_id = 8, v_name = ''Conference Room A'', v_type = ''Meeting Room'', v_capacity = 20,
        v_location = ''Admin Building, Floor 3''\<rparr>]"
    by (simp add: init_database_def empty_database_def default_venues_def insert_venue_def
        next_rowid_def)
  have two: "init_database (init_database (empty_database :: 'n database)) = init_database (empty_database :: 'n database)"
    using seeding_idempotent [of "empty_database :: 'n database"] by simp
  show ?thesis using one two by (simp add: empty_database_def)
qed

section \<open>The order of timestamps\<close>

text \<open>
  The conflict query compares the timestamps as the values the database holds for the
  submitted texts, while the validity check of \<^verbatim>\<open>create_booking\<close> compares the parsed
  instants. What the query guarantees is stated in its own order: a conflict in that
  order is answered with 409 and nothing is stored, a booking of another venue is never
  a conflict, and no sequence of admissions and deletions stores two bookings of one
  venue that conflict in that order.
\<close>

lemma create_booking_cases:
  "snd (create_booking p numeric db booking) = db
   \<or> (is_available numeric db (venue_id booking) (start_time booking) (end_time booking)
        = Inr True
      \<and> int64 (venue_id booking)
      \<and> snd (create_booking p numeric db booking) = snd (insert_booking numeric db booking))"
  by (auto simp: create_booking_def is_available_def split_beta Let_def
      split: option.splits sum.splits if_splits)

lemma insert_booking_disjoint:
  assumes "disjoint_as_stored db" and "int64 (venue_id booking)"
    and "is_available numeric db (venue_id booking) (start_time booking) (end_time booking)
           = Inr True"
  shows "disjoint_as_stored (snd (insert_booking numeric db booking))"
  using assms
  by (auto simp: disjoint_as_stored_def list_all_iff bookings_insert_booking
      is_available_iff conflicts_def)

lemma delete_booking_disjoint:
  "disjoint_as_stored db \<Longrightarrow> disjoint_as_stored (snd (delete_booking db i))"
  by (auto simp: disjoint_as_stored_def list_all_iff delete_booking_def Let_def)

lemma step_disjoint:
  "disjoint_as_stored db \<Longrightarrow> disjoint_as_stored (step p numeric db x)"
proof (cases x)
  case (Admit booking)
  assume "disjoint_as_stored db"
  then show ?thesis
    using Admit create_booking_cases [of p numeric db booking]
      insert_booking_disjoint [of db booking numeric]
    by auto
next
  case (Delete i)
  assume "disjoint_as_stored db"
  then show ?thesis using Delete by (simp add: delete_booking_disjoint)
qed

lemma run_disjoint:
  "disjoint_as_stored db \<Longrightarrow> disjoint_as_stored (run p numeric db ops)"
  unfolding run_def by (induction ops arbitrary: db) (simp_all add: step_disjoint)

lemma conflict_rejected:
  assumes "p (replace_Z (start_time booking)) = Some s"
    and "p (replace_Z (end_time booking)) = Some e"
    and "dt_le e s = Inr False"
    and "int64 (venue_id booking)"
    and "b \<in> set (bookings db)"
    and "conflicts numeric (venue_id booking) (start_time booking) (end_time booking) b"
  shows "create_booking p numeric db booking =
     (Inl (HTTPException 409 ''Venue is not available for the selected time''), db)"
  using create_booking_valid [OF assms(1-4), of numeric db] assms(4-6)
  by (auto simp: is_available_iff)

lemma other_venue_no_conflict: "b_venue_id b \<noteq> v \<Longrightarrow> \<not> conflicts numeric v s e b"
  by (simp add: conflicts_def)

text \<open>
  C1. The invariant of the specification is about instants, and the code does not keep
  it. On the seeded database, the booking 10:00 to 12:00 at offset +00:00 of venue 1 is
  admitted, and then the booking 13:00 to 14:00 at offset +02:00 of the same venue,
  which is 11:00 to 12:00 at +00:00, is admitted as well: as texts, the end
  \<^verbatim>\<open>...T12:00:00+00:00\<close> of the first is not above the start
  \<^verbatim>\<open>...T13:00:00+02:00\<close> of the second. After the two admissions the table holds
  two distinct bookings of venue 1 whose intervals overlap.
\<close>

theorem overlapping_bookings_admitted:
  "bookings (run iso_extended integer_literal (init_database empty_database)
     [Admit \<lparr>venue_id = 1, booker_name = ''ann'',
             start_time = ''2024-01-01T10:00:00+00:00'',
             end_time = ''2024-01-01T12:00:00+00:00''\<rparr>,
      Admit \<lparr>venue_id = 1, booker_name = ''bob'',
             start_time = ''2024-01-01T13:00:00+02:00'',
             end_time = ''2024-01-01T14:00:00+02:00''\<rparr>])
   = [\<lparr>b_id = 1, b_venue_id = 1, b_booker_name = ''ann'',
       b_start_time = Text ''2024-01-01T10:00:00+00:00'',
       b_end_time = Text ''2024-01-01T12:00:00+00:00''\<rparr>,
      \<lparr>b_id = 2, b_venue_id = 1, b_booker_name = ''bob'',
       b_start_time = Text ''2024-01-01T13:00:00+02:00'',
       b_end_time = Text ''2024-01-01T14:00:00+02:00''\<rparr>]
   \<and> overlapping iso_extended
        (''2024-01-01T10:00:00+00:00'', ''2024-01-01T12:00:00+00:00'')
        (''2024-01-01T13:00:00+02:00'', ''2024-01-01T14:00:00+02:00'')
   \<and> \<not> non_overlapping iso_extended (run iso_extended integer_literal (init_database empty_database)
     [Admit \<lparr>venue_id = 1, booker_name = ''ann'',
             start_time = ''2024-01-01T10:00:00+00:00'',
             end_time = ''2024-01-01T12:00:00+00:00''\<rparr>,
      Admit \<lparr>venue_id = 1, booker_name = ''bob'',
             start_time = ''2024-01-01T13:00:00+02:00'',
             end_time = ''2024-01-01T14:00:00+02:00''\<rparr>])"
  by code_simp

text \<open>
  C6. A stored booking of venue 2 from 09:00 to 11:00 at offset -05:00 is 14:00 to 16:00
  at +00:00. A valid request for venue 2 from 15:00 to 15:30 at +00:00 overlaps it, yet
  \<^verbatim>\<open>create_booking\<close> answers with success and inserts the row: the conflict query
  finds the stored end \<^verbatim>\<open>...T11:00:00-05:00\<close> below the requested start
  \<^verbatim>\<open>...T15:00:00+00:00\<close>.
\<close>

theorem overlapping_request_admitted:
  "booked \<lparr>b_id = 1, b_venue_id = 2, b_booker_name = ''ann'',
            b_start_time = Text ''2025-03-10T09:00:00-05:00'',
            b_end_time = (Text ''2025-03-10T11:00:00-05:00'' :: int sql_value)\<rparr>
     = Some (''2025-03-10T09:00:00-05:00'', ''2025-03-10T11:00:00-05:00'')
   \<and> overlapping iso_extended
     (''2025-03-10T09:00:00-05:00'', ''2025-03-10T11:00:00-05:00'')
     (''2025-03-10T15:00:00+00:00'', ''2025-03-10T15:30:00+00:00'')
   \<and> create_booking iso_extended integer_literal
       ((init_database empty_database)
          \<lparr>bookings := [\<lparr>b_id = 1, b_venue_id = 2, b_booker_name = ''ann'',
                          b_start_time = Text ''2025-03-10T09:00:00-05:00'',
                          b_end_time = Text ''2025-03-10T11:00:00-05:00''\<rparr>],
           bookings_seq := 1\<rparr>)
       \<lparr>venue_id = 2, booker_name = ''bob'', start_time = ''2025-03-10T15:00:00+00:00'',
        end_time = ''2025-03-10T15:30:00+00:00''\<rparr>
     = (Inr \<lparr>r_id = 2, r_venue_id = 2, r_venue_name = ''Lecture Hall B'',
             r_booker_name = ''bob'', r_start_time = ''2025-03-10T15:00:00+00:00'',
             r_end_time = ''2025-03-10T15:30:00+00:00''\<rparr>,
        (init_database empty_database)
          \<lparr>bookings := [\<lparr>b_id = 1, b_venue_id = 2, b_booker_name = ''ann'',
                          b_start_time = Text ''2025-03-10T09:00:00-05:00'',
                          b_end_time = Text ''2025-03-10T11:00:00-05:00''\<rparr>,
                        \<lparr>b_id = 2, b_venue_id = 2, b_booker_name = ''bob'',
                          b_start_time = Text ''2025-03-10T15:00:00+00:00'',
                          b_end_time = Text ''2025-03-10T15:30:00+00:00''\<rparr>],
           bookings_seq := 2\<rparr>)"
  by code_simp

text \<open>
  C7. With the booking 10:00 to 11:00 stored in the \<^verbatim>\<open>Z\<close> form, the request 11:00
  to 12:00 is admitted when written with \<^verbatim>\<open>Z\<close> and is answered with 409 when
  written with \<^verbatim>\<open>+00:00\<close>, although \<^verbatim>\<open>create_booking\<close> parses both forms to the
  same datetimes: the query compares \<^verbatim>\<open>...T11:00:00Z\<close> with
  \<^verbatim>\<open>...T11:00:00+00:00\<close> as texts, and \<^verbatim>\<open>Z\<close> is above \<^verbatim>\<open>+\<close>.
\<close>

theorem designator_changes_outcome:
  "replace_Z ''2024-01-01T11:00:00Z'' = ''2024-01-01T11:00:00+00:00''
   \<and> replace_Z ''2024-01-01T12:00:00Z'' = ''2024-01-01T12:00:00+00:00''
   \<and> fst (create_booking iso_extended integer_literal
        ((init_database empty_database)
          \<lparr>bookings := [\<lparr>b_id = 1, b_venue_id = 1, b_booker_name = ''ann'',
                          b_start_time = Text ''2024-01-01T10:00:00Z'',
                          b_end_time = Text ''2024-01-01T11:00:00Z''\<rparr>],
           bookings_seq := 1\<rparr>)
        \<lparr>venue_id = 1, booker_name = ''bob'', start_time = ''2024-01-01T11:00:00Z'',
         end_time = ''2024-01-01T12:00:00Z''\<rparr>)
     = Inr \<lparr>r_id = 2, r_venue_id = 1, r_venue_name = ''Lecture Hall A'',
            r_booker_name = ''bob'', r_start_time = ''2024-01-01T11:00:00Z'',
            r_end_time = ''2024-01-01T12:00:00Z''\<rparr>
   \<and> fst (create_booking iso_extended integer_literal
        ((init_database empty_database)
          \<lparr>bookings := [\<lparr>b_id = 1, b_venue_id = 1, b_booker_name = ''ann'',
                          b_start_time = Text ''2024-01-01T10:00:00Z'',
                          b_end_time = Text ''2024-01-01T11:00:00Z''\<rparr>],
           bookings_seq := 1\<rparr>)
        \<lparr>venue_id = 1, booker_name = ''bob'', start_time = ''2024-01-01T11:00:00+00:00'',
         end_time = ''2024-01-01T12:00:00+00:00''\<rparr>)
     = Inl (HTTPException 409 ''Venue is not available for the selected time'')"
  by code_simp

end
